theory Spec2Isabelle
  imports Complex_Main "HOL-Library.Signed_Division" "HOL-Library.Word"
begin

section \<open>The pan-tilt mechanism of \<^verbatim>\<open>main.cpp\<close>\<close>

text \<open>
  The C++ source computes with \<^verbatim>\<open>float\<close>. The program is modelled twice. In the
  first model a \<^verbatim>\<open>float\<close> is idealised as a real number: \<open>+\<close>, \<open>*\<close> and \<open>cos\<close> are the
  exact operations on \<^typ>\<open>real\<close>, and rounding, infinities and NaN are left out. The
  main loop and the statements about the order of its calls, its tilt axis and the size
  of its first integration step are about this model. The second model, further down,
  is the mechanism in IEEE 754 binary32 with every operation rounded; the statements
  about what one call of \<^verbatim>\<open>update\<close> adds, exactly, are about that one.
\<close>

subsection \<open>Data\<close>

text \<open>\<^verbatim>\<open>WindowSize\<close>: a width and a height, both \<^verbatim>\<open>int\<close>.\<close>

type_synonym WindowSize = "int \<times> int"

text \<open>
  \<^verbatim>\<open>WindowSize::aspect()\<close> divides the width by the height as floats. A float division
  by zero does not trap: it yields an infinity or NaN, which is no real number, so the
  model returns \<open>None\<close> there.
\<close>

definition aspect :: "WindowSize \<Rightarrow> real option" where
  "aspect sz = (if snd sz = 0 then None else Some (real_of_int (fst sz) / real_of_int (snd sz)))"

record PerspectiveCamera =
  fov :: real
  cameraAspect :: "real option"
  nearPlane :: real
  farPlane :: real

text \<open>
  The state of a \<^verbatim>\<open>PanTiltMechanism\<close>. The two angles live in the scene graph:
  \<open>baseRotationY\<close> is \<^verbatim>\<open>children.front()->rotation.y\<close> (the base mesh, the first child
  added), \<open>upperRotationZ\<close> is \<^verbatim>\<open>getObjectByName("upper")->rotation.z\<close>. The other
  fields are the private members \<^verbatim>\<open>panSpeed_\<close>, \<^verbatim>\<open>tiltSpeed_\<close>, \<^verbatim>\<open>maxSpeed_\<close> and
  \<^verbatim>\<open>camera_\<close>.
\<close>

record PanTiltMechanism =
  baseRotationY :: real
  upperRotationZ :: real
  panSpeed :: real
  tiltSpeed :: real
  maxSpeed :: real
  camera :: PerspectiveCamera

subsection \<open>Operations\<close>

text \<open>\<^verbatim>\<open>std::clamp(v, lo, hi)\<close>: \<^verbatim>\<open>(v < lo) ? lo : (hi < v) ? hi : v\<close>.\<close>

definition clamp :: "real \<Rightarrow> real \<Rightarrow> real \<Rightarrow> real" where
  "clamp v lo hi = (if v < lo then lo else if hi < v then hi else v)"

text \<open>
  The state the constructor leaves behind: the member initialisers \<^verbatim>\<open>panSpeed_{0}\<close>,
  \<^verbatim>\<open>tiltSpeed_{0}\<close>, \<^verbatim>\<open>maxSpeed_{0.5}\<close>, the camera
  \<^verbatim>\<open>camera_(60, camSize.aspect(), 0.01, 100)\<close>, and freshly created scene objects, whose
  rotation is zero.
\<close>

definition constructed :: "WindowSize \<Rightarrow> PanTiltMechanism" where
  "constructed camSize =
     \<lparr> baseRotationY = 0, upperRotationZ = 0,
       panSpeed = 0, tiltSpeed = 0, maxSpeed = 1 / 2,
       camera = \<lparr> fov = 60, cameraAspect = aspect camSize,
                  nearPlane = 1 / 100, farPlane = 100 \<rparr> \<rparr>"

text \<open>
  The constructor as a step that could fail: \<open>None\<close> would stand for a construction that
  throws. The source has no \<^verbatim>\<open>throw\<close>, no error return and no check of \<open>camSize\<close>; its
  only use of \<open>camSize\<close> is \<^verbatim>\<open>camSize.aspect()\<close>. So no branch of the model yields \<open>None\<close>.
  The three models the constructor loads are taken to be present.
\<close>

definition PanTiltMechanism_new :: "WindowSize \<Rightarrow> PanTiltMechanism option" where
  "PanTiltMechanism_new camSize = Some (constructed camSize)"

definition getTiltAngle :: "PanTiltMechanism \<Rightarrow> real" where
  "getTiltAngle m = upperRotationZ m"

definition getPanAngle :: "PanTiltMechanism \<Rightarrow> real" where
  "getPanAngle m = baseRotationY m"

definition setTiltSpeed :: "real \<Rightarrow> PanTiltMechanism \<Rightarrow> PanTiltMechanism" where
  "setTiltSpeed rad m = m\<lparr>tiltSpeed := rad\<rparr>"

definition setPanSpeed :: "real \<Rightarrow> PanTiltMechanism \<Rightarrow> PanTiltMechanism" where
  "setPanSpeed rad m = m\<lparr>panSpeed := rad\<rparr>"

text \<open>\<^verbatim>\<open>update(delta)\<close>: first the tilt statement, then the pan statement.\<close>

definition update :: "real \<Rightarrow> PanTiltMechanism \<Rightarrow> PanTiltMechanism" where
  "update delta m =
     (let m1 = m\<lparr>upperRotationZ :=
                   upperRotationZ m + clamp (tiltSpeed m) (- maxSpeed m) (maxSpeed m) * delta\<rparr>
      in m1\<lparr>baseRotationY :=
               baseRotationY m1 + clamp (panSpeed m1) (- maxSpeed m1) (maxSpeed m1) * delta\<rparr>)"

section \<open>The mechanism in binary32\<close>

subsection \<open>Binary32 arithmetic\<close>

text \<open>
  A \<^verbatim>\<open>float\<close> is an IEEE 754 binary32 value: a finite number, an infinity
  (\<open>Infinity True\<close> is the negative one) or NaN. The two zeros are not told apart (the
  mechanism never divides), and NaN carries no payload.
\<close>

datatype f32 = Finite real | Infinity bool | NaN

text \<open>The nearest integer, a tie going to the even one.\<close>

definition rne :: "real \<Rightarrow> int" where
  "rne x =
     (let f = \<lfloor>x\<rfloor>; d = x - of_int f
      in if d < 1 / 2 then f
         else if 1 / 2 < d then f + 1
         else if even f then f else f + 1)"

text \<open>
  \<open>binade n e x\<close> climbs from exponent \<open>e\<close>, at most \<open>n\<close> steps, while \<open>2^(e+1) \<le> \<bar>x\<bar>\<close>. From
  \<open>-126\<close> with \<open>253\<close> steps it yields the exponent of the binade of \<open>x\<close>, kept between
  \<open>-126\<close> (the subnormal and the smallest normal numbers) and \<open>127\<close>.
\<close>

fun binade :: "nat \<Rightarrow> int \<Rightarrow> real \<Rightarrow> int" where
  "binade 0 e x = e"
| "binade (Suc n) e x = (if 2 powi (e + 1) \<le> \<bar>x\<bar> then binade n (e + 1) x else e)"

definition exponent32 :: "real \<Rightarrow> int" where
  "exponent32 x = binade 253 (- 126) x"

text \<open>
  Rounding to nearest, ties to even: \<open>x\<close> is rounded to a multiple of the spacing
  \<open>2^(exponent - 23)\<close> of its binade; a result of magnitude \<open>2^128\<close> or more overflows to
  the infinity of the sign of \<open>x\<close>.
\<close>

definition round32 :: "real \<Rightarrow> f32" where
  "round32 x =
     (let q = 2 powi (exponent32 x - 23);
          r = of_int (rne (x / q)) * q
      in if 2 powi 128 \<le> \<bar>r\<bar> then Infinity (x < 0) else Finite r)"


text \<open>The operations the mechanism uses: \<open>+\<close>, \<open>*\<close>, unary minus and \<open><\<close>.\<close>

fun fadd :: "f32 \<Rightarrow> f32 \<Rightarrow> f32" where
  "fadd (Finite a) (Finite b) = round32 (a + b)"
| "fadd NaN y = NaN"
| "fadd x NaN = NaN"
| "fadd (Infinity s) (Infinity t) = (if s = t then Infinity s else NaN)"
| "fadd (Infinity s) (Finite b) = Infinity s"
| "fadd (Finite a) (Infinity t) = Infinity t"

fun fmul :: "f32 \<Rightarrow> f32 \<Rightarrow> f32" where
  "fmul (Finite a) (Finite b) = round32 (a * b)"
| "fmul NaN y = NaN"
| "fmul x NaN = NaN"
| "fmul (Infinity s) (Infinity t) = Infinity (s \<noteq> t)"
| "fmul (Infinity s) (Finite b) = (if b = 0 then NaN else Infinity (s \<noteq> (b < 0)))"
| "fmul (Finite a) (Infinity t) = (if a = 0 then NaN else Infinity ((a < 0) \<noteq> t))"

fun fneg :: "f32 \<Rightarrow> f32" where
  "fneg (Finite a) = Finite (- a)"
| "fneg (Infinity s) = Infinity (\<not> s)"
| "fneg NaN = NaN"

fun flt :: "f32 \<Rightarrow> f32 \<Rightarrow> bool" where
  "flt (Finite a) (Finite b) = (a < b)"
| "flt NaN y = False"
| "flt x NaN = False"
| "flt (Infinity s) (Infinity t) = (s \<and> \<not> t)"
| "flt (Infinity s) (Finite b) = s"
| "flt (Finite a) (Infinity t) = (\<not> t)"

text \<open>\<^verbatim>\<open>std::clamp(v, lo, hi)\<close> on floats. Every comparison with NaN is false.\<close>

definition clamp32 :: "f32 \<Rightarrow> f32 \<Rightarrow> f32 \<Rightarrow> f32" where
  "clamp32 v lo hi = (if flt v lo then lo else if flt hi v then hi else v)"

subsection \<open>The mechanism\<close>

text \<open>
  The angles and the members \<^verbatim>\<open>panSpeed_\<close>, \<^verbatim>\<open>tiltSpeed_\<close>, \<^verbatim>\<open>maxSpeed_\<close> as floats, the
  state the constructor leaves (\<open>0.5\<close> is a binary32 number), and \<^verbatim>\<open>setPanSpeed\<close> and
  \<^verbatim>\<open>update\<close> with every \<open>+\<close> and \<open>*\<close> rounded on its own.
\<close>

record PanTiltMechanism32 =
  panAngle32 :: f32
  tiltAngle32 :: f32
  panSpeed32 :: f32
  tiltSpeed32 :: f32
  maxSpeed32 :: f32

definition constructed32 :: PanTiltMechanism32 where
  "constructed32 =
     \<lparr> panAngle32 = Finite 0, tiltAngle32 = Finite 0,
       panSpeed32 = Finite 0, tiltSpeed32 = Finite 0, maxSpeed32 = Finite (1 / 2) \<rparr>"

definition setPanSpeed32 :: "f32 \<Rightarrow> PanTiltMechanism32 \<Rightarrow> PanTiltMechanism32" where
  "setPanSpeed32 rad m = m\<lparr>panSpeed32 := rad\<rparr>"

definition update32 :: "f32 \<Rightarrow> PanTiltMechanism32 \<Rightarrow> PanTiltMechanism32" where
  "update32 delta m =
     (let m1 = m\<lparr>tiltAngle32 :=
                   fadd (tiltAngle32 m)
                     (fmul (clamp32 (tiltSpeed32 m) (fneg (maxSpeed32 m)) (maxSpeed32 m)) delta)\<rparr>
      in m1\<lparr>panAngle32 :=
               fadd (panAngle32 m1)
                 (fmul (clamp32 (panSpeed32 m1) (fneg (maxSpeed32 m1)) (maxSpeed32 m1)) delta)\<rparr>)"

text \<open>\<open>updates32 n delta\<close>: \<^verbatim>\<open>update(delta)\<close> called \<open>n\<close> times in a row.\<close>

fun updates32 :: "nat \<Rightarrow> f32 \<Rightarrow> PanTiltMechanism32 \<Rightarrow> PanTiltMechanism32" where
  "updates32 0 delta m = m"
| "updates32 (Suc n) delta m = updates32 n delta (update32 delta m)"

section \<open>The main loop\<close>

subsection \<open>The speed profile\<close>

text \<open>
  Modelled from the spec: \<^verbatim>\<open>math::TWO_PI\<close> and \<^verbatim>\<open>math::degToRad\<close> belong to the
  threepp library, which is not part of the sources; they are the constant \<open>2\<pi>\<close> and
  the conversion from degrees to radians (multiplication by \<open>\<pi> / 180\<close>).
\<close>

definition TWO_PI :: real where
  "TWO_PI = 2 * pi"

definition degToRad :: "real \<Rightarrow> real" where
  "degToRad degrees = degrees * (pi / 180)"

text \<open>\<^verbatim>\<open>constexpr float amplitude = 90; constexpr float frequency = 0.05;\<close>\<close>

definition amplitude :: real where
  "amplitude = 90"

definition frequency :: real where
  "frequency = 5 / 100"

text \<open>
  The commanded speed in degrees per second, as a function of \<^verbatim>\<open>clock.elapsedTime\<close>:
  \<^verbatim>\<open>math::TWO_PI * frequency * amplitude * std::cos(math::TWO_PI * frequency * clock.elapsedTime)\<close>.
\<close>

definition speed :: "real \<Rightarrow> real" where
  "speed elapsedTime =
     TWO_PI * frequency * amplitude * cos (TWO_PI * frequency * elapsedTime)"

subsection \<open>Frames\<close>

text \<open>
  A \<^verbatim>\<open>CV_8UC3\<close> matrix: a list of rows, each a list of pixels of three bytes (blue, green,
  red, the order \<^verbatim>\<open>Format::BGR\<close> asks for).
\<close>

type_synonym Pixel = "8 word \<times> 8 word \<times> 8 word"

type_synonym Image = "Pixel list list"

text \<open>
  Modelled from the spec: \<^verbatim>\<open>cv::flip(src, dst, flipCode)\<close> belongs to OpenCV, which is
  not part of the sources. Flip code \<open>0\<close> reverses the order of the rows (a flip around
  the horizontal axis), a positive code reverses every row, a negative code does both;
  no pixel value is changed.
\<close>

definition cv_flip :: "Image \<Rightarrow> int \<Rightarrow> Image" where
  "cv_flip src flipCode =
     (if flipCode = 0 then rev src
      else if 0 < flipCode then map rev src
      else rev (map rev src))"

subsection \<open>The state of the loop and what it does to its collaborators\<close>

text \<open>The two cameras a render call is given: \<^verbatim>\<open>panTilt.getCamera()\<close> and \<^verbatim>\<open>camera\<close>.\<close>

datatype Camera = VirtualCamera | MainCamera

text \<open>
  The calls the loop makes on the renderer, the camera helper and the OpenCV window, in
  the order it makes them. A \<open>Render\<close> records the camera, whether the camera helper was
  visible in the scene at that moment, and the renderer's size.
\<close>

datatype Event =
    Clear
  | SetHelperVisible bool
  | SetSize WindowSize
  | Render Camera bool WindowSize
  | ReadPixels WindowSize
  | Flip
  | Imshow Image

text \<open>
  What one iteration reads from outside: the value \<^verbatim>\<open>clock.getDelta()\<close> returns, the
  value of \<^verbatim>\<open>clock.elapsedTime\<close> after that call, and the pixels the renderer's read-back
  delivers (bottom row first), should this iteration capture.
\<close>

record TickInput =
  delta :: real
  elapsed :: real
  pixels :: Image

record LoopState =
  panTilt :: PanTiltMechanism
  tick :: int
  helperVisible :: bool
  rendererSize :: WindowSize
  image :: Image
  trace :: "Event list"

definition virtualCameraSize :: WindowSize where
  "virtualCameraSize = (640, 640)"

definition emit :: "Event \<Rightarrow> LoopState \<Rightarrow> LoopState" where
  "emit e s = s\<lparr>trace := trace s @ [e]\<rparr>"

definition renderer_clear :: "LoopState \<Rightarrow> LoopState" where
  "renderer_clear s = emit Clear s"

definition renderer_setSize :: "WindowSize \<Rightarrow> LoopState \<Rightarrow> LoopState" where
  "renderer_setSize sz s = emit (SetSize sz) (s\<lparr>rendererSize := sz\<rparr>)"

definition renderer_render :: "Camera \<Rightarrow> LoopState \<Rightarrow> LoopState" where
  "renderer_render cam s = emit (Render cam (helperVisible s) (rendererSize s)) s"

definition setHelperVisible :: "bool \<Rightarrow> LoopState \<Rightarrow> LoopState" where
  "setHelperVisible b s = emit (SetHelperVisible b) (s\<lparr>helperVisible := b\<rparr>)"

definition renderer_readPixels :: "Image \<Rightarrow> LoopState \<Rightarrow> LoopState" where
  "renderer_readPixels px s = emit (ReadPixels virtualCameraSize) (s\<lparr>image := px\<rparr>)"

definition flip_image :: "LoopState \<Rightarrow> LoopState" where
  "flip_image s = emit Flip (s\<lparr>image := cv_flip (image s) 0\<rparr>)"

definition imshow :: "LoopState \<Rightarrow> LoopState" where
  "imshow s = emit (Imshow (image s)) s"

text \<open>
  \<^verbatim>\<open>tick % 2 == 0\<close> on a \<^verbatim>\<open>long long\<close>; C++'s \<^verbatim>\<open>%\<close> truncates towards zero, which is
  \<open>smod\<close>. The counter is modelled as an unbounded integer: it starts at zero and is
  incremented once per iteration, so it stays below \<open>2^63\<close> in any run that can happen.
\<close>

definition renderVirtual :: "int \<Rightarrow> bool" where
  "renderVirtual tk = (tk smod 2 = 0)"

text \<open>The first \<^verbatim>\<open>if (renderVirtual)\<close> block.\<close>

definition capture :: "TickInput \<Rightarrow> LoopState \<Rightarrow> LoopState" where
  "capture inp s =
     renderer_readPixels (pixels inp)
       (setHelperVisible True
         (renderer_render VirtualCamera
           (renderer_setSize virtualCameraSize
             (setHelperVisible False
               (renderer_clear s)))))"

text \<open>The second \<^verbatim>\<open>if (renderVirtual)\<close> block.\<close>

definition present :: "LoopState \<Rightarrow> LoopState" where
  "present s = imshow (flip_image s)"

text \<open>
  One call of the lambda given to \<^verbatim>\<open>canvas.animate\<close>, statement by statement. The
  parameter \<open>canvasSize\<close> is what \<^verbatim>\<open>canvas.size()\<close> returns.
\<close>

definition animate_tick :: "WindowSize \<Rightarrow> TickInput \<Rightarrow> LoopState \<Rightarrow> LoopState" where
  "animate_tick canvasSize inp s0 =
     (let rv = renderVirtual (tick s0);
          dt = delta inp;
          s1 = s0\<lparr>panTilt := update dt (panTilt s0)\<rparr>;
          s2 = s1\<lparr>panTilt := setPanSpeed (degToRad (speed (elapsed inp))) (panTilt s1)\<rparr>;
          s3 = (if rv then capture inp s2 else s2);
          s4 = renderer_render MainCamera (renderer_setSize canvasSize (renderer_clear s3));
          s5 = (if rv then present s4 else s4)
      in s5\<lparr>tick := tick s5 + 1\<rparr>)"

text \<open>
  The state when \<^verbatim>\<open>canvas.animate\<close> is entered: the mechanism as constructed, the
  counter \<^verbatim>\<open>long long tick{}\<close>, a renderer created with the canvas's size, an empty
  \<^verbatim>\<open>cv::Mat\<close>, and a camera helper that is visible, as every new scene object is.
\<close>

definition initialState :: "WindowSize \<Rightarrow> LoopState" where
  "initialState canvasSize =
     \<lparr> panTilt = constructed virtualCameraSize, tick = 0, helperVisible = True,
       rendererSize = canvasSize, image = [], trace = [] \<rparr>"

text \<open>The loop, run for as many iterations as there are inputs.\<close>

fun run :: "WindowSize \<Rightarrow> TickInput list \<Rightarrow> LoopState \<Rightarrow> LoopState" where
  "run canvasSize [] s = s"
| "run canvasSize (inp # inps) s = run canvasSize inps (animate_tick canvasSize inp s)"

subsection \<open>Reading a trace\<close>

fun isRender :: "Camera \<Rightarrow> Event \<Rightarrow> bool" where
  "isRender cam (Render cam' visible sz) = (cam' = cam)"
| "isRender cam e = False"

text \<open>How many render calls with the given camera a trace holds.\<close>

definition renders :: "Camera \<Rightarrow> Event list \<Rightarrow> nat" where
  "renders cam evs = length (filter (isRender cam) evs)"

text \<open>
  A render of the virtual camera with the helper hidden, or of the main camera with the
  helper visible; every other call passes.
\<close>

fun helperAsIntended :: "Event \<Rightarrow> bool" where
  "helperAsIntended (Render VirtualCamera visible sz) = (\<not> visible)"
| "helperAsIntended (Render MainCamera visible sz) = visible"
| "helperAsIntended e = True"

section \<open>Properties of the mechanism\<close>

lemma update_fields:
  "panSpeed (update dt m) = panSpeed m"
  "tiltSpeed (update dt m) = tiltSpeed m"
  "maxSpeed (update dt m) = maxSpeed m"
  "camera (update dt m) = camera m"
  by (simp_all add: update_def Let_def)

lemma update_pan:
  "baseRotationY (update dt m) =
     baseRotationY m + clamp (panSpeed m) (- maxSpeed m) (maxSpeed m) * dt"
  by (simp add: update_def Let_def)

lemma update_tilt:
  "upperRotationZ (update dt m) =
     upperRotationZ m + clamp (tiltSpeed m) (- maxSpeed m) (maxSpeed m) * dt"
  by (simp add: update_def Let_def)

lemma clamp_inside:
  "- M \<le> s \<Longrightarrow> s \<le> M \<Longrightarrow> clamp s (- M) M = s"
  by (simp add: clamp_def)

section \<open>Properties of the main loop\<close>

lemmas loop_defs =
  animate_tick_def capture_def present_def renderer_clear_def renderer_setSize_def
  renderer_render_def setHelperVisible_def renderer_readPixels_def flip_image_def
  imshow_def emit_def Let_def

lemma renderVirtual_iff_even: "renderVirtual n \<longleftrightarrow> even n"
  by (auto simp: renderVirtual_def signed_modulo_int_def sgn_if abs_if even_iff_mod_2_eq_zero)

lemma animate_tick_panTilt:
  "panTilt (animate_tick c inp s) =
     setPanSpeed (degToRad (speed (elapsed inp))) (update (delta inp) (panTilt s))"
  by (simp add: loop_defs)

lemma animate_tick_tick: "tick (animate_tick c inp s) = tick s + 1"
  by (simp add: loop_defs)

lemma animate_tick_helperVisible:
  "helperVisible (animate_tick c inp s) = (renderVirtual (tick s) \<or> helperVisible s)"
  by (simp add: loop_defs)

lemma animate_tick_trace_capture:
  "renderVirtual (tick s) \<Longrightarrow>
   trace (animate_tick c inp s) = trace s @
     [Clear, SetHelperVisible False, SetSize virtualCameraSize,
      Render VirtualCamera False virtualCameraSize, SetHelperVisible True,
      ReadPixels virtualCameraSize,
      Clear, SetSize c, Render MainCamera True c,
      Flip, Imshow (cv_flip (pixels inp) 0)]"
  by (simp add: loop_defs)

lemma animate_tick_trace_skip:
  "\<not> renderVirtual (tick s) \<Longrightarrow>
   trace (animate_tick c inp s) = trace s @
     [Clear, SetSize c, Render MainCamera (helperVisible s) c]"
  by (simp add: loop_defs)

lemma run_snoc: "run c (inps @ [inp]) s = animate_tick c inp (run c inps s)"
  by (induction inps arbitrary: s) simp_all

lemma run_tick: "tick (run c inps s) = tick s + int (length inps)"
  by (induction inps arbitrary: s) (simp_all add: animate_tick_tick)

lemma animate_tick_renders_main:
  "renders MainCamera (trace (animate_tick c inp s)) = renders MainCamera (trace s) + 1"
  by (cases "renderVirtual (tick s)")
     (simp_all add: animate_tick_trace_capture animate_tick_trace_skip renders_def)

lemma animate_tick_renders_virtual:
  "renders VirtualCamera (trace (animate_tick c inp s)) =
     renders VirtualCamera (trace s) + (if renderVirtual (tick s) then 1 else 0)"
  by (cases "renderVirtual (tick s)")
     (simp_all add: animate_tick_trace_capture animate_tick_trace_skip renders_def)

lemma initialState_fields:
  "tick (initialState c) = 0" "trace (initialState c) = []" "helperVisible (initialState c)"
  "panTilt (initialState c) = constructed virtualCameraSize"
  by (simp_all add: initialState_def)

lemma run_renders_main:
  "renders MainCamera (trace (run c inps s)) = renders MainCamera (trace s) + length inps"
  by (induction inps arbitrary: s) (simp_all add: animate_tick_renders_main)

lemma run_renders_virtual:
  "tick s = 0 \<Longrightarrow>
   renders VirtualCamera (trace (run c inps s)) =
     renders VirtualCamera (trace s) + (length inps + 1) div 2"
proof (induction inps rule: rev_induct)
  case Nil
  then show ?case by simp
next
  case (snoc inp inps)
  have "renderVirtual (tick (run c inps s)) \<longleftrightarrow> even (length inps)"
    using snoc.prems by (simp add: run_tick renderVirtual_iff_even)
  then show ?case
    using snoc by (auto simp: run_snoc animate_tick_renders_virtual elim!: evenE oddE)
qed

lemma ceiling_half: "\<lceil>real N / 2\<rceil> = int ((N + 1) div 2)"
  by linarith

text \<open>
  Claim C4. The capture decision for tick index \<open>n\<close> is true exactly when \<open>n mod 2 = 0\<close>,
  tick \<open>0\<close> included. One iteration renders the virtual camera once if its tick index is
  even and not at all otherwise, and renders the main camera once whatever the parity.
  Over a run of \<open>N\<close> iterations from the initial state (tick \<open>0\<close>) the virtual camera is
  rendered \<open>\<lceil>N / 2\<rceil>\<close> times and the main camera \<open>N\<close> times.
\<close>

theorem capture_on_even_ticks:
  "(renderVirtual n \<longleftrightarrow> n mod 2 = 0)
   \<and> renderVirtual 0
   \<and> renders VirtualCamera (trace (animate_tick c inp s))
       = renders VirtualCamera (trace s) + (if tick s mod 2 = 0 then 1 else 0)
   \<and> renders MainCamera (trace (animate_tick c inp s)) = renders MainCamera (trace s) + 1
   \<and> int (renders VirtualCamera (trace (run c inps (initialState c))))
       = \<lceil>real (length inps) / 2\<rceil>
   \<and> renders MainCamera (trace (run c inps (initialState c))) = length inps"
proof -
  have "renderVirtual n \<longleftrightarrow> n mod 2 = 0" for n
    by (simp add: renderVirtual_iff_even even_iff_mod_2_eq_zero)
  moreover have
    "renders VirtualCamera (trace (run c inps (initialState c))) = (length inps + 1) div 2"
    using run_renders_virtual [of "initialState c" c inps]
    by (simp add: initialState_fields renders_def)
  moreover have "renders MainCamera (trace (run c inps (initialState c))) = length inps"
    using run_renders_main [of c inps "initialState c"]
    by (simp add: initialState_fields renders_def)
  ultimately show ?thesis
    by (simp add: animate_tick_renders_virtual animate_tick_renders_main ceiling_half)
qed

lemma animate_tick_helper_ok:
  assumes "list_all helperAsIntended (trace s)" and "renderVirtual (tick s) \<or> helperVisible s"
  shows "list_all helperAsIntended (trace (animate_tick c inp s))"
  using assms
  by (cases "renderVirtual (tick s)")
     (simp_all add: animate_tick_trace_capture animate_tick_trace_skip)

lemma run_helper_ok:
  assumes "list_all helperAsIntended (trace s)" and "renderVirtual (tick s) \<or> helperVisible s"
  shows "list_all helperAsIntended (trace (run c inps s))
       \<and> (inps \<noteq> [] \<longrightarrow> helperVisible (run c inps s))"
  using assms
proof (induction inps arbitrary: s)
  case Nil
  then show ?case by simp
next
  case (Cons inp inps)
  have ok: "list_all helperAsIntended (trace (animate_tick c inp s))"
    using Cons.prems by (simp add: animate_tick_helper_ok)
  have vis: "helperVisible (animate_tick c inp s)"
    using Cons.prems by (simp add: animate_tick_helperVisible)
  from Cons.IH [OF ok] vis show ?case
    by (cases inps) simp_all
qed

text \<open>
  Claim C9. An iteration that captures makes its calls in this order: the helper is
  hidden, the virtual camera is rendered (with the helper hidden), the helper is made
  visible again, and only then follow the read-back and the render of the main camera
  (with the helper visible); the helper is visible when the iteration ends. An
  iteration that does not capture leaves the helper's visibility alone. So after any
  number of iterations from the initial state the helper is visible, and in the whole
  trace every render of the virtual camera saw it hidden and every render of the main
  camera saw it visible. Since tick \<open>0\<close> captures, this does not even depend on the
  helper being visible when the loop is entered.
\<close>

theorem helper_hidden_only_during_capture:
  "(renderVirtual (tick s) \<longrightarrow>
      trace (animate_tick c inp s) = trace s @
        [Clear, SetHelperVisible False, SetSize virtualCameraSize,
         Render VirtualCamera False virtualCameraSize, SetHelperVisible True,
         ReadPixels virtualCameraSize,
         Clear, SetSize c, Render MainCamera True c,
         Flip, Imshow (cv_flip (pixels inp) 0)]
      \<and> helperVisible (animate_tick c inp s))
   \<and> (\<not> renderVirtual (tick s) \<longrightarrow>
      trace (animate_tick c inp s) = trace s @
        [Clear, SetSize c, Render MainCamera (helperVisible s) c]
      \<and> helperVisible (animate_tick c inp s) = helperVisible s)
   \<and> helperVisible (run c inps (initialState c))
   \<and> list_all helperAsIntended (trace (run c inps (initialState c)))
   \<and> (inps \<noteq> [] \<longrightarrow> helperVisible (run c inps ((initialState c)\<lparr>helperVisible := v\<rparr>)))
   \<and> list_all helperAsIntended (trace (run c inps ((initialState c)\<lparr>helperVisible := v\<rparr>)))"
proof -
  have any: "list_all helperAsIntended (trace (run c inps ((initialState c)\<lparr>helperVisible := v\<rparr>)))
        \<and> (inps \<noteq> [] \<longrightarrow> helperVisible (run c inps ((initialState c)\<lparr>helperVisible := v\<rparr>)))"
    for v
    by (rule run_helper_ok) (simp_all add: initialState_def renderVirtual_iff_even)
  have "(initialState c)\<lparr>helperVisible := True\<rparr> = initialState c"
    by (simp add: initialState_def)
  with any [of True] have "list_all helperAsIntended (trace (run c inps (initialState c)))"
    and "inps \<noteq> [] \<longrightarrow> helperVisible (run c inps (initialState c))"
    by simp_all
  moreover have "helperVisible (run c [] (initialState c))"
    by (simp add: initialState_fields)
  ultimately have "list_all helperAsIntended (trace (run c inps (initialState c)))"
    and "helperVisible (run c inps (initialState c))"
    by (cases inps; simp)+
  with any [of v] show ?thesis
    by (simp add: animate_tick_trace_capture animate_tick_trace_skip animate_tick_helperVisible)
qed

theorem helper_hidden_only_during_capture_witness:
  "renderVirtual (tick (initialState (800, 600)))
   \<and> trace (animate_tick (800, 600)
        \<lparr>delta = 0, elapsed = 0, pixels = [[(1, 2, 3)], [(4, 5, 6)]]\<rparr>
        (initialState (800, 600))) =
        [Clear, SetHelperVisible False, SetSize (640, 640),
         Render VirtualCamera False (640, 640), SetHelperVisible True,
         ReadPixels (640, 640),
         Clear, SetSize (800, 600), Render MainCamera True (800, 600),
         Flip, Imshow [[(4, 5, 6)], [(1, 2, 3)]]]
   \<and> \<not> renderVirtual (tick (animate_tick (800, 600)
        \<lparr>delta = 0, elapsed = 0, pixels = [[(1, 2, 3)], [(4, 5, 6)]]\<rparr>
        (initialState (800, 600))))
   \<and> trace (animate_tick (800, 600) \<lparr>delta = 1 / 60, elapsed = 1 / 60, pixels = []\<rparr>
        (animate_tick (800, 600)
          \<lparr>delta = 0, elapsed = 0, pixels = [[(1, 2, 3)], [(4, 5, 6)]]\<rparr>
          (initialState (800, 600)))) =
        [Clear, SetHelperVisible False, SetSize (640, 640),
         Render VirtualCamera False (640, 640), SetHelperVisible True,
         ReadPixels (640, 640),
         Clear, SetSize (800, 600), Render MainCamera True (800, 600),
         Flip, Imshow [[(4, 5, 6)], [(1, 2, 3)]],
         Clear, SetSize (800, 600), Render MainCamera True (800, 600)]
   \<and> [\<lparr>delta = 0, elapsed = 0, pixels = []\<rparr>] \<noteq> ([] :: TickInput list)
   \<and> helperVisible (run (800, 600) [\<lparr>delta = 0, elapsed = 0, pixels = []\<rparr>]
        ((initialState (800, 600))\<lparr>helperVisible := False\<rparr>))"
  using helper_hidden_only_during_capture
    [of "initialState (800, 600)" "(800, 600)"
        "\<lparr>delta = 0, elapsed = 0, pixels = [[(1, 2, 3)], [(4, 5, 6)]]\<rparr>"
        "[\<lparr>delta = 0, elapsed = 0, pixels = []\<rparr>]" False]
    helper_hidden_only_during_capture
    [of "animate_tick (800, 600)
          \<lparr>delta = 0, elapsed = 0, pixels = [[(1, 2, 3)], [(4, 5, 6)]]\<rparr>
          (initialState (800, 600))"
        "(800, 600)" "\<lparr>delta = 1 / 60, elapsed = 1 / 60, pixels = []\<rparr>" "[]" True]
  by (simp add: initialState_fields animate_tick_tick animate_tick_helperVisible
      renderVirtual_iff_even virtualCameraSize_def cv_flip_def)

lemma clamp_zero: "0 \<le> M \<Longrightarrow> clamp 0 (- M) M = 0"
  by (simp add: clamp_def)

lemma animate_tick_tilt:
  assumes "tiltSpeed (panTilt s) = 0" and "0 \<le> maxSpeed (panTilt s)"
  shows "upperRotationZ (panTilt (animate_tick c inp s)) = upperRotationZ (panTilt s)"
    and "tiltSpeed (panTilt (animate_tick c inp s)) = 0"
    and "maxSpeed (panTilt (animate_tick c inp s)) = maxSpeed (panTilt s)"
  using assms
  by (simp_all add: animate_tick_panTilt setPanSpeed_def update_tilt update_fields clamp_zero)

lemma run_tilt:
  assumes "tiltSpeed (panTilt s) = 0" and "0 \<le> maxSpeed (panTilt s)"
  shows "upperRotationZ (panTilt (run c inps s)) = upperRotationZ (panTilt s)
       \<and> tiltSpeed (panTilt (run c inps s)) = 0"
  using assms
  by (induction inps arbitrary: s) (simp_all add: animate_tick_tilt)

text \<open>
  Claim C10. The loop never calls \<open>setTiltSpeed\<close> (\<open>animate_tick\<close> has no such call) and
  the constructor stores the tilt speed \<open>0\<close>. So after any number of iterations, whatever
  the clock delivered, the stored tilt speed is still \<open>0\<close> and the tilt angle is the
  initial one, \<open>0\<close>.
\<close>

theorem tilt_never_moves:
  "tiltSpeed (panTilt (initialState c)) = 0
   \<and> tiltSpeed (panTilt (run c inps (initialState c))) = 0
   \<and> getTiltAngle (panTilt (run c inps (initialState c))) = getTiltAngle (panTilt (initialState c))
   \<and> getTiltAngle (panTilt (run c inps (initialState c))) = 0"
proof -
  have "tiltSpeed (panTilt (initialState c)) = 0" "0 \<le> maxSpeed (panTilt (initialState c))"
    "upperRotationZ (panTilt (initialState c)) = 0"
    by (simp_all add: initialState_def constructed_def)
  with run_tilt [of "initialState c" c inps] show ?thesis
    by (simp add: getTiltAngle_def)
qed

section \<open>The frame handed to the display\<close>

text \<open>
  Claim C5. Reversing the rows twice, \<open>cv_flip (cv_flip img 0) 0\<close>, gives the buffer
  back, for every buffer and so for every non-empty one. One reversal keeps the number
  of rows, and row \<open>i\<close> of the result is row \<open>length img - 1 - i\<close> of the input, pixel for
  pixel: no colour value is changed.
\<close>

theorem flip_rows_involutive:
  "cv_flip (cv_flip img 0) 0 = img
   \<and> length (cv_flip img 0) = length img
   \<and> (\<forall>i < length img. cv_flip img 0 ! i = img ! (length img - 1 - i))"
  by (simp add: cv_flip_def rev_nth)

theorem flip_rows_involutive_witness:
  "[[(1, 2, 3)], [(4, 5, 6)]] \<noteq> ([] :: Image)
   \<and> cv_flip (cv_flip [[(1, 2, 3)], [(4, 5, 6)]] 0) 0 = [[(1, 2, 3)], [(4, 5, 6)]]
   \<and> (0::nat) < length [[(1, 2, 3)], [(4, 5, 6 :: 8 word)] :: Pixel list]
   \<and> cv_flip [[(1, 2, 3)], [(4, 5, 6)]] 0 ! 0 = [(4, 5, 6)]"
  using flip_rows_involutive [of "[[(1, 2, 3)], [(4, 5, 6)]]"]
  by simp

section \<open>Construction\<close>

text \<open>
  Claim C8, as amended. Constructing the mechanism with a resolution whose width or
  height is zero or negative does not fail at construction time: for every size the
  constructor yields a mechanism. It has no check of the size; the size enters the
  result through the camera's aspect ratio and nowhere else.
\<close>

theorem construction_never_checks_size:
  "PanTiltMechanism_new camSize = Some (constructed camSize)
   \<and> PanTiltMechanism_new camSize \<noteq> None
   \<and> cameraAspect (camera (constructed camSize)) = aspect camSize
   \<and> constructed camSize
       = (constructed virtualCameraSize)
           \<lparr>camera := (camera (constructed virtualCameraSize))
              \<lparr>cameraAspect := aspect camSize\<rparr>\<rparr>"
  by (simp add: PanTiltMechanism_new_def constructed_def)

text \<open>
  The claim as stated fails at the resolution \<open>(0, 640)\<close>: the constructor returns a
  mechanism, whose camera has aspect ratio \<open>0\<close>.
\<close>

theorem construction_zero_width_counterexample:
  "PanTiltMechanism_new (0, 640) = Some (constructed (0, 640))
   \<and> PanTiltMechanism_new (0, 640) \<noteq> None
   \<and> cameraAspect (camera (constructed (0, 640))) = Some 0"
  by (simp add: PanTiltMechanism_new_def constructed_def aspect_def)

section \<open>The order of integration and speed command\<close>

text \<open>
  Claim C3, as amended. In every iteration \<open>update\<close> is called first and integrates the
  pan speed that the previous iteration stored (the constructor's \<open>0\<close> in the first
  iteration); only afterwards is the commanded speed for the current elapsed time
  computed and stored with \<open>setPanSpeed\<close>. So the integration step of an iteration
  uses the speed computed in the iteration before it, and the first iteration leaves
  the pan angle where it was.
\<close>

theorem update_precedes_setPanSpeed:
  "panTilt (animate_tick c inp s)
     = setPanSpeed (degToRad (speed (elapsed inp))) (update (delta inp) (panTilt s))
   \<and> getPanAngle (panTilt (animate_tick c inp s)) - getPanAngle (panTilt s)
     = clamp (panSpeed (panTilt s)) (- maxSpeed (panTilt s)) (maxSpeed (panTilt s)) * delta inp
   \<and> panSpeed (panTilt (animate_tick c inp s)) = degToRad (speed (elapsed inp))
   \<and> getPanAngle (panTilt (animate_tick c inp' (animate_tick c inp s)))
       - getPanAngle (panTilt (animate_tick c inp s))
     = clamp (degToRad (speed (elapsed inp))) (- maxSpeed (panTilt s)) (maxSpeed (panTilt s))
       * delta inp'
   \<and> getPanAngle (panTilt (animate_tick c inp (initialState c)))
     = getPanAngle (panTilt (initialState c))"
  by (simp add: animate_tick_panTilt getPanAngle_def update_pan update_fields setPanSpeed_def
      initialState_fields constructed_def clamp_def)

subsection \<open>Numerical bounds\<close>

text \<open>
  An enclosure of \<open>\<pi>\<close>, from the Maclaurin expansion of the sine at \<open>\<pi> / 6\<close>, where the
  sine is \<open>1 / 2\<close>.
\<close>

lemma sin_poly_enclosure:
  fixes x :: real
  assumes "0 \<le> x"
  shows "\<bar>sin x - (x - x^3 / 6 + x^5 / 120 - x^7 / 5040 + x^9 / 362880)\<bar> \<le> x^11 / 39916800"
proof -
  obtain t where
    "sin x = (\<Sum>m<11. sin_coeff m * x ^ m) + (sin (t + 1/2 * real (11::nat) * pi) / fact 11) * x ^ 11"
    using Maclaurin_sin_expansion [of x 11] by blast
  moreover have "(\<Sum>m<11. sin_coeff m * x ^ m) = x - x^3 / 6 + x^5 / 120 - x^7 / 5040 + x^9 / 362880"
    by (simp add: sin_coeff_def lessThan_nat_numeral fact_numeral)
  moreover have "\<bar>(sin (t + 1/2 * real (11::nat) * pi) / fact 11) * x ^ 11\<bar> \<le> x^11 / 39916800"
  proof -
    have "\<bar>sin (t + 1/2 * real (11::nat) * pi)\<bar> \<le> 1" by (rule abs_sin_le_one)
    then have "\<bar>sin (t + 1/2 * real (11::nat) * pi)\<bar> * x^11 \<le> 1 * x^11"
      using assms by (intro mult_right_mono) simp_all
    then show ?thesis using assms by (simp add: abs_mult fact_numeral field_simps)
  qed
  ultimately show ?thesis by simp
qed

lemma sin_upper:
  fixes x :: real
  assumes "0 \<le> x"
  shows "sin x \<le> (x - x^3 / 6 + x^5 / 120 - x^7 / 5040 + x^9 / 362880) + x^11 / 39916800"
proof -
  have "sin x - (x - x^3 / 6 + x^5 / 120 - x^7 / 5040 + x^9 / 362880) \<le> x^11 / 39916800"
    by (rule order_trans [OF abs_ge_self sin_poly_enclosure [OF assms]])
  then show ?thesis by (simp only: diff_le_eq add.commute)
qed

lemma sin_lower:
  fixes x :: real
  assumes "0 \<le> x"
  shows "(x - x^3 / 6 + x^5 / 120 - x^7 / 5040 + x^9 / 362880) - x^11 / 39916800 \<le> sin x"
proof -
  have "- (sin x - (x - x^3 / 6 + x^5 / 120 - x^7 / 5040 + x^9 / 362880)) \<le> x^11 / 39916800"
    by (rule order_trans [OF abs_ge_minus_self sin_poly_enclosure [OF assms]])
  then show ?thesis by linarith
qed

lemma pi_lower: "314159 / 100000 < pi"
proof -
  let ?a = "314159 / 600000 :: real"
  have "(?a - ?a^3 / 6 + ?a^5 / 120 - ?a^7 / 5040 + ?a^9 / 362880) + ?a^11 / 39916800 < 1 / 2"
    by (simp add: power_divide)
  moreover have "sin ?a \<le> (?a - ?a^3 / 6 + ?a^5 / 120 - ?a^7 / 5040 + ?a^9 / 362880) + ?a^11 / 39916800"
    by (rule sin_upper) simp
  ultimately have "sin ?a < 1 / 2" by (rule order_le_less_trans [rotated])
  then have "sin ?a < sin (pi / 6)" by (simp only: sin_30)
  moreover have "?a \<le> pi / 2" "- (pi / 2) \<le> ?a" "pi / 6 \<le> pi / 2" "- (pi/2) \<le> pi / 6"
    using pi_ge_two by simp_all
  ultimately have "?a < pi / 6"
    by (simp only: sin_mono_less_eq)
  then show ?thesis by simp
qed

lemma pi_upper: "pi < 31416 / 10000"
proof -
  let ?b = "31416 / 60000 :: real"
  have "1 / 2 < (?b - ?b^3 / 6 + ?b^5 / 120 - ?b^7 / 5040 + ?b^9 / 362880) - ?b^11 / 39916800"
    by (simp add: power_divide)
  moreover have "(?b - ?b^3 / 6 + ?b^5 / 120 - ?b^7 / 5040 + ?b^9 / 362880) - ?b^11 / 39916800 \<le> sin ?b"
    by (rule sin_lower) simp
  ultimately have "1 / 2 < sin ?b" by (rule order_less_le_trans)
  then have "sin (pi / 6) < sin ?b" by (simp only: sin_30)
  moreover have "?b \<le> pi / 2" "- (pi / 2) \<le> ?b" "pi / 6 \<le> pi / 2" "- (pi/2) \<le> pi / 6"
    using pi_ge_two by simp_all
  ultimately have "pi / 6 < ?b"
    by (simp only: sin_mono_less_eq)
  then show ?thesis by simp
qed


lemma pi_squared_bounds: "98695 / 10000 < pi * pi" "pi * pi < 98697 / 10000"
proof -
  have "314159 / 100000 * (314159 / 100000) < pi * pi"
    using pi_lower by (intro mult_strict_mono) simp_all
  then show "98695 / 10000 < pi * pi" by simp
  have "pi * pi < 31416 / 10000 * (31416 / 10000)"
    using pi_upper by (intro mult_strict_mono) simp_all
  then show "pi * pi < 98697 / 10000" by simp
qed

lemma speed_zero: "speed 0 = 9 * pi"
  by (simp add: speed_def TWO_PI_def frequency_def amplitude_def)

lemma degToRad_speed_zero: "degToRad (speed 0) = pi * pi / 20"
  by (simp add: speed_zero degToRad_def)

lemma first_step_angle:
  "getPanAngle (update (1 / 60) (setPanSpeed (degToRad (speed 0)) (constructed virtualCameraSize)))
     = pi * pi / 1200"
proof -
  have "clamp (pi * pi / 20) (- (1 / 2)) (1 / 2) = pi * pi / 20"
    using pi_squared_bounds by (intro clamp_inside) simp_all
  then show ?thesis
    by (simp add: getPanAngle_def update_pan setPanSpeed_def constructed_def degToRad_speed_zero)
qed

lemma cos_small: "0 < cos (pi / 600)" "cos (pi / 600) < 1"
proof -
  show "0 < cos (pi / 600)"
    by (rule cos_gt_zero_pi) simp_all
  have "cos (pi / 600) < cos 0"
    by (rule cos_monotone_0_pi) simp_all
  then show "cos (pi / 600) < 1" by simp
qed

text \<open>
  The claim as stated fails in the second iteration of a run whose clock delivers
  \<open>0\<close> and then \<open>1 / 60\<close>: the pan angle moves by the clamped speed of elapsed time \<open>0\<close>,
  which is \<open>\<pi>\<^sup>2 / 20\<close>, and not by that of elapsed time \<open>1 / 60\<close>, which is smaller by
  the factor \<open>cos (\<pi> / 600)\<close>.
\<close>

theorem same_tick_speed_counterexample:
  "getPanAngle (panTilt (run (800, 600)
       [\<lparr>delta = 0, elapsed = 0, pixels = []\<rparr>,
        \<lparr>delta = 1 / 60, elapsed = 1 / 60, pixels = []\<rparr>] (initialState (800, 600))))
     - getPanAngle (panTilt (run (800, 600)
       [\<lparr>delta = 0, elapsed = 0, pixels = []\<rparr>] (initialState (800, 600))))
   \<noteq> clamp (degToRad (speed (1 / 60)))
       (- maxSpeed (panTilt (run (800, 600)
          [\<lparr>delta = 0, elapsed = 0, pixels = []\<rparr>] (initialState (800, 600)))))
       (maxSpeed (panTilt (run (800, 600)
          [\<lparr>delta = 0, elapsed = 0, pixels = []\<rparr>] (initialState (800, 600)))))
     * (1 / 60)"
proof -
  let ?c = "cos (pi / 600)"
  have sp: "degToRad (speed (1 / 60)) = pi * pi / 20 * ?c"
    by (simp add: speed_def TWO_PI_def frequency_def amplitude_def degToRad_def)
  have p: "0 < pi * pi / 20" "pi * pi / 20 \<le> 1 / 2"
    using pi_squared_bounds by simp_all
  have lt: "pi * pi / 20 * ?c < pi * pi / 20"
    using p(1) cos_small(2) by simp
  have ge: "0 \<le> pi * pi / 20 * ?c"
    using p(1) cos_small(1) by simp
  have c1: "clamp (pi * pi / 20 * ?c) (- (1 / 2)) (1 / 2) = pi * pi / 20 * ?c"
    using lt ge p(2) by (intro clamp_inside) linarith+
  have c0: "clamp (pi * pi / 20) (- (1 / 2)) (1 / 2) = pi * pi / 20"
    using p by (intro clamp_inside) linarith+
  have l: "getPanAngle (panTilt (run (800, 600)
       [\<lparr>delta = 0, elapsed = 0, pixels = []\<rparr>,
        \<lparr>delta = 1 / 60, elapsed = 1 / 60, pixels = []\<rparr>] (initialState (800, 600))))
     - getPanAngle (panTilt (run (800, 600)
       [\<lparr>delta = 0, elapsed = 0, pixels = []\<rparr>] (initialState (800, 600))))
     = pi * pi / 20 * (1 / 60)"
    by (simp add: animate_tick_panTilt getPanAngle_def update_pan update_fields setPanSpeed_def
        initialState_fields constructed_def degToRad_speed_zero c0)
  have m: "maxSpeed (panTilt (run (800, 600)
          [\<lparr>delta = 0, elapsed = 0, pixels = []\<rparr>] (initialState (800, 600)))) = 1 / 2"
    by (simp add: animate_tick_panTilt update_fields setPanSpeed_def
        initialState_fields constructed_def)
  have ne: "pi * pi / 20 * (1 / 60) \<noteq> pi * pi / 20 * ?c * (1 / 60)"
    using lt by simp
  show ?thesis
    unfolding l m sp c1 by (rule ne)
qed

section \<open>The first integration step of the default profile\<close>

text \<open>
  Claim C7, as amended. With amplitude \<open>90\<close>, frequency \<open>0.05\<close> and speed limit \<open>0.5\<close>,
  the commanded speed at elapsed time \<open>0\<close> is \<open>9\<pi>\<close>, between \<open>28.27\<close> and \<open>28.28\<close> degrees
  per second, which is \<open>\<pi>\<^sup>2 / 20\<close>, between \<open>0.4934\<close> and \<open>0.4935\<close> radians per second,
  and below the limit. One \<open>update\<close> of \<open>1 / 60\<close> second with that speed stored is
  therefore unclamped and yields the pan angle \<open>\<pi>\<^sup>2 / 1200\<close>, between \<open>0.0082245\<close>
  and \<open>0.0082255\<close>, that is \<open>0.008225\<close> and not \<open>0.004112\<close>. In the loop this is the pan
  angle after the iteration that follows the one at elapsed time \<open>0\<close>.
\<close>

theorem first_step_scenario:
  "speed 0 = 9 * pi
   \<and> 2827 / 100 < speed 0 \<and> speed 0 < 2828 / 100
   \<and> degToRad (speed 0) = pi * pi / 20
   \<and> 4934 / 10000 < degToRad (speed 0) \<and> degToRad (speed 0) < 4935 / 10000
   \<and> maxSpeed (constructed virtualCameraSize) = 1 / 2
   \<and> degToRad (speed 0) < maxSpeed (constructed virtualCameraSize)
   \<and> getPanAngle (update (1 / 60)
         (setPanSpeed (degToRad (speed 0)) (constructed virtualCameraSize)))
       = degToRad (speed 0) * (1 / 60)
   \<and> 82245 / 10000000 < getPanAngle (update (1 / 60)
         (setPanSpeed (degToRad (speed 0)) (constructed virtualCameraSize)))
   \<and> getPanAngle (update (1 / 60)
         (setPanSpeed (degToRad (speed 0)) (constructed virtualCameraSize)))
       < 82255 / 10000000
   \<and> getPanAngle (panTilt (run c
         [\<lparr>delta = 0, elapsed = 0, pixels = px\<rparr>,
          \<lparr>delta = 1 / 60, elapsed = 1 / 60, pixels = px'\<rparr>] (initialState c)))
       = degToRad (speed 0) * (1 / 60)"
proof -
  let ?a = "getPanAngle (update (1 / 60)
         (setPanSpeed (degToRad (speed 0)) (constructed virtualCameraSize)))"
  have a: "?a = pi * pi / 1200" by (rule first_step_angle)
  have s: "2827 / 100 < speed 0" "speed 0 < 2828 / 100"
    using pi_lower pi_upper by (simp_all add: speed_zero)
  have d: "4934 / 10000 < degToRad (speed 0)" "degToRad (speed 0) < 4935 / 10000"
    using pi_squared_bounds by (simp_all add: degToRad_speed_zero)
  have b: "82245 / 10000000 < ?a" "?a < 82255 / 10000000"
    unfolding a using pi_squared_bounds by simp_all
  have m: "maxSpeed (constructed virtualCameraSize) = 1 / 2"
    by (simp add: constructed_def)
  have r: "getPanAngle (panTilt (run c
         [\<lparr>delta = 0, elapsed = 0, pixels = px\<rparr>,
          \<lparr>delta = 1 / 60, elapsed = 1 / 60, pixels = px'\<rparr>] (initialState c))) = ?a"
    by (simp add: animate_tick_panTilt initialState_fields getPanAngle_def update_pan
        update_fields setPanSpeed_def)
  have e1: "speed 0 = 9 * pi" by (rule speed_zero)
  have e2: "degToRad (speed 0) = pi * pi / 20" by (rule degToRad_speed_zero)
  have angle: "?a = degToRad (speed 0) * (1 / 60)"
    by (rule trans [OF a]) (simp add: e2)
  have below: "degToRad (speed 0) < maxSpeed (constructed virtualCameraSize)"
    unfolding m using d(2) by simp
  note r' = r [unfolded angle]
  show ?thesis
    by (intro conjI) (fact e1 s e2 d m below angle b r')+
qed

text \<open>
  The claim as stated fails: the step yields more than \<open>0.008\<close>, which is further than
  \<open>0.001\<close> from \<open>0.004112\<close>; and the loop's iteration that computes the speed of elapsed
  time \<open>0\<close>, were it given \<open>dt = 1 / 60\<close>, would leave the pan angle at \<open>0\<close>.
\<close>

theorem first_step_angle_counterexample:
  "8 / 1000 < getPanAngle (update (1 / 60)
         (setPanSpeed (degToRad (speed 0)) (constructed virtualCameraSize)))
   \<and> \<not> \<bar>getPanAngle (update (1 / 60)
         (setPanSpeed (degToRad (speed 0)) (constructed virtualCameraSize)))
        - 4112 / 1000000\<bar> < 1 / 1000
   \<and> getPanAngle (panTilt (animate_tick (800, 600)
         \<lparr>delta = 1 / 60, elapsed = 0, pixels = []\<rparr> (initialState (800, 600)))) = 0"
proof -
  let ?a = "getPanAngle (update (1 / 60)
         (setPanSpeed (degToRad (speed 0)) (constructed virtualCameraSize)))"
  have "8 / 1000 < ?a"
    unfolding first_step_angle using pi_squared_bounds by simp
  moreover from this have "\<not> \<bar>?a - 4112 / 1000000\<bar> < 1 / 1000" by linarith
  moreover have "getPanAngle (panTilt (animate_tick (800, 600)
         \<lparr>delta = 1 / 60, elapsed = 0, pixels = []\<rparr> (initialState (800, 600)))) = 0"
    by (simp add: animate_tick_panTilt initialState_fields getPanAngle_def update_pan
        setPanSpeed_def constructed_def clamp_def)
  ultimately show ?thesis by simp
qed

section \<open>What one call of update adds, in binary32\<close>

subsection \<open>Rounding\<close>

lemma binade_eq:
  assumes "e0 \<le> e" and "e \<le> e0 + int n" and "2 powi e \<le> \<bar>x\<bar>"
    and "\<bar>x\<bar> < 2 powi (e + 1)"
  shows "binade n e0 x = e"
  using assms
proof (induction n arbitrary: e0)
  case 0
  then show ?case by simp
next
  case (Suc n)
  show ?case
  proof (cases "e0 = e")
    case True
    with Suc.prems show ?thesis by simp
  next
    case False
    with Suc.prems have lt: "e0 + 1 \<le> e" by simp
    have "(2::real) powi (e0 + 1) \<le> 2 powi e"
      using lt by (intro power_int_increasing) simp_all
    with Suc.prems have "2 powi (e0 + 1) \<le> \<bar>x\<bar>" by linarith
    moreover have "binade n (e0 + 1) x = e"
      using Suc.prems lt by (intro Suc.IH) simp_all
    ultimately show ?thesis by simp
  qed
qed

lemma exponent32_eq:
  assumes "- 126 \<le> e" and "e \<le> 127" and "2 powi e \<le> \<bar>x\<bar>" and "\<bar>x\<bar> < 2 powi (e + 1)"
  shows "exponent32 x = e"
  unfolding exponent32_def using assms by (intro binade_eq) simp_all

lemma round32_in_binade:
  assumes "- 126 \<le> e" and "e \<le> 127" and "2 powi e \<le> \<bar>x\<bar>" and "\<bar>x\<bar> < 2 powi (e + 1)"
    and "\<bar>of_int (rne (x / 2 powi (e - 23))) * 2 powi (e - 23)\<bar> < (2::real) powi 128"
  shows "round32 x = Finite (of_int (rne (x / 2 powi (e - 23))) * 2 powi (e - 23))"
  using assms(5) by (simp add: round32_def Let_def exponent32_eq [OF assms(1-4)])

lemma dt_60: "round32 (1 / 60) = Finite (8947849 / 2 ^ 29)"
  using round32_in_binade [of "- 6" "1 / 60"]
  by (simp add: rne_def power_int_minus)

lemma step_product: "round32 (1 / 2 * (8947849 / 2 ^ 29)) = Finite (8947849 / 2 ^ 30)"
  using round32_in_binade [of "- 7" "1 / 2 * (8947849 / 2 ^ 29)"]
  by (simp add: rne_def power_int_minus)

lemma step_one: "round32 (0 + 8947849 / 2 ^ 30) = Finite (8947849 / 2 ^ 30)"
  using round32_in_binade [of "- 7" "0 + 8947849 / 2 ^ 30"]
  by (simp add: rne_def power_int_minus)

lemma step_two: "round32 (8947849 / 2 ^ 30 + 8947849 / 2 ^ 30) = Finite (8947849 / 2 ^ 29)"
  using round32_in_binade [of "- 6" "8947849 / 2 ^ 30 + 8947849 / 2 ^ 30"]
  by (simp add: rne_def power_int_minus)

lemma step_three: "round32 (8947849 / 2 ^ 29 + 8947849 / 2 ^ 30) = Finite (6710887 / 2 ^ 28)"
  using round32_in_binade [of "- 6" "8947849 / 2 ^ 29 + 8947849 / 2 ^ 30"]
  by (simp add: rne_def power_int_minus)

lemma rne_error: "\<bar>of_int (rne y) - y\<bar> \<le> 1 / 2"
  unfolding rne_def Let_def by (auto simp: abs_le_iff; linarith)

lemma binade_lower: "binade n e0 x = e0 \<or> 2 powi (binade n e0 x) \<le> \<bar>x\<bar>"
proof (induction n arbitrary: e0)
  case 0
  then show ?case by simp
next
  case (Suc n)
  show ?case
  proof (cases "2 powi (e0 + 1) \<le> \<bar>x\<bar>")
    case True
    with Suc.IH [of "e0 + 1"] show ?thesis by auto
  next
    case False
    then show ?thesis by simp
  qed
qed

lemma round32_error:
  assumes "round32 x = Finite r"
  shows "\<bar>r - x\<bar> \<le> \<bar>x\<bar> / 2 ^ 24 + 1 / 2 ^ 150"
proof -
  define e where "e = exponent32 x"
  define q :: real where "q = 2 powi (e - 23)"
  have q: "0 < q" by (simp add: q_def)
  have r: "r = of_int (rne (x / q)) * q"
    using assms by (simp add: round32_def Let_def e_def q_def split: if_splits)
  have "r - x = (of_int (rne (x / q)) - x / q) * q"
    using q by (simp add: r field_simps)
  then have "\<bar>r - x\<bar> = \<bar>of_int (rne (x / q)) - x / q\<bar> * q"
    using q by (simp add: abs_mult)
  also have "\<dots> \<le> 1 / 2 * q"
    using q rne_error [of "x / q"] by (intro mult_right_mono) simp_all
  finally have half: "\<bar>r - x\<bar> \<le> q / 2" by simp
  have q2: "q / 2 = 2 powi e / 2 ^ 24"
    by (simp add: q_def power_int_diff)
  consider "e = - 126" | "2 powi e \<le> \<bar>x\<bar>"
    using binade_lower [of 253 "- 126" x] by (auto simp: e_def exponent32_def)
  then show ?thesis
  proof cases
    case 1
    then have "q / 2 = 1 / 2 ^ 150"
      by (simp add: q2 power_int_minus field_simps)
    moreover have "0 \<le> \<bar>x\<bar> / 2 ^ 24" by simp
    ultimately show ?thesis using half by linarith
  next
    case 2
    then have "q / 2 \<le> \<bar>x\<bar> / 2 ^ 24"
      by (simp add: q2 divide_right_mono)
    moreover have "(0::real) \<le> 1 / 2 ^ 150" by simp
    ultimately show ?thesis using half by linarith
  qed
qed

lemma round32_not_NaN: "round32 x \<noteq> NaN"
  by (simp add: round32_def Let_def)

subsection \<open>One call\<close>

lemma update32_fields:
  "panSpeed32 (update32 dt m) = panSpeed32 m"
  "tiltSpeed32 (update32 dt m) = tiltSpeed32 m"
  "maxSpeed32 (update32 dt m) = maxSpeed32 m"
  by (simp_all add: update32_def Let_def)

lemma update32_pan:
  "panAngle32 (update32 dt m) =
     fadd (panAngle32 m) (fmul (clamp32 (panSpeed32 m) (fneg (maxSpeed32 m)) (maxSpeed32 m)) dt)"
  by (simp add: update32_def Let_def)

lemma update32_tilt:
  "tiltAngle32 (update32 dt m) =
     fadd (tiltAngle32 m) (fmul (clamp32 (tiltSpeed32 m) (fneg (maxSpeed32 m)) (maxSpeed32 m)) dt)"
  by (simp add: update32_def Let_def)

lemma rounded_step_error:
  assumes "fadd (Finite a) (fmul (Finite c) (Finite d)) = Finite a'"
  shows "\<exists>p. fmul (Finite c) (Finite d) = Finite p
           \<and> \<bar>p - c * d\<bar> \<le> \<bar>c * d\<bar> / 2 ^ 24 + 1 / 2 ^ 150
           \<and> \<bar>a' - (a + p)\<bar> \<le> \<bar>a + p\<bar> / 2 ^ 24 + 1 / 2 ^ 150"
proof (cases "round32 (c * d)")
  case (Finite p)
  then have 1: "fmul (Finite c) (Finite d) = Finite p" by simp
  with assms have 2: "round32 (a + p) = Finite a'" by simp
  from 1 round32_error [OF Finite] round32_error [OF 2] show ?thesis by blast
next
  case (Infinity s)
  with assms show ?thesis by simp
next
  case NaN
  then show ?thesis by (simp add: round32_not_NaN)
qed

lemma two_steps:
  "update32 (Finite (8947849 / 2 ^ 29))
     (update32 (Finite (8947849 / 2 ^ 29)) (setPanSpeed32 (Finite 2) constructed32))
   = \<lparr> panAngle32 = Finite (8947849 / 2 ^ 29), tiltAngle32 = Finite 0,
       panSpeed32 = Finite 2, tiltSpeed32 = Finite 0, maxSpeed32 = Finite (1 / 2) \<rparr>"
proof -
  have z: "round32 0 = Finite 0"
    by (simp add: round32_def Let_def rne_def)
  show ?thesis
    using step_product step_one step_two
    by (simp add: update32_def Let_def setPanSpeed32_def constructed32_def clamp32_def z)
qed

lemma third_step:
  "panAngle32 (update32 (Finite (8947849 / 2 ^ 29))
     \<lparr> panAngle32 = Finite (8947849 / 2 ^ 29), tiltAngle32 = Finite 0,
       panSpeed32 = Finite 2, tiltSpeed32 = Finite 0, maxSpeed32 = Finite (1 / 2) \<rparr>)
   = Finite (6710887 / 2 ^ 28)"
  using step_product step_three
  by (simp add: update32_pan clamp32_def)

text \<open>
  Claim C1, as amended. One call of \<open>update(dt)\<close> replaces each axis's angle \<open>a\<close> by the
  binary32 sum of \<open>a\<close> and the binary32 product \<open>clamp(s, -maxSpeed, maxSpeed) * dt\<close>,
  where \<open>s\<close> is the speed stored for that axis, and changes nothing else. The angle
  thus changes by \<open>clamp * dt\<close> up to two roundings: when the values are finite, the
  product \<open>p\<close> is within \<open>\<bar>clamp * dt\<bar> / 2^24 + 2^-150\<close> of \<open>clamp * dt\<close> and the new angle
  within \<open>\<bar>a + p\<bar> / 2^24 + 2^-150\<close> of \<open>a + p\<close>.
\<close>

theorem update32_adds_rounded_product:
  "panAngle32 (update32 dt m)
     = fadd (panAngle32 m)
         (fmul (clamp32 (panSpeed32 m) (fneg (maxSpeed32 m)) (maxSpeed32 m)) dt)
   \<and> tiltAngle32 (update32 dt m)
     = fadd (tiltAngle32 m)
         (fmul (clamp32 (tiltSpeed32 m) (fneg (maxSpeed32 m)) (maxSpeed32 m)) dt)
   \<and> panSpeed32 (update32 dt m) = panSpeed32 m
   \<and> tiltSpeed32 (update32 dt m) = tiltSpeed32 m
   \<and> maxSpeed32 (update32 dt m) = maxSpeed32 m
   \<and> (panAngle32 m = Finite a
        \<and> clamp32 (panSpeed32 m) (fneg (maxSpeed32 m)) (maxSpeed32 m) = Finite c
        \<and> dt = Finite d \<and> panAngle32 (update32 dt m) = Finite a'
      \<longrightarrow> (\<exists>p. fmul (Finite c) (Finite d) = Finite p
             \<and> \<bar>p - c * d\<bar> \<le> \<bar>c * d\<bar> / 2 ^ 24 + 1 / 2 ^ 150
             \<and> \<bar>a' - (a + p)\<bar> \<le> \<bar>a + p\<bar> / 2 ^ 24 + 1 / 2 ^ 150))
   \<and> (tiltAngle32 m = Finite b
        \<and> clamp32 (tiltSpeed32 m) (fneg (maxSpeed32 m)) (maxSpeed32 m) = Finite c'
        \<and> dt = Finite d \<and> tiltAngle32 (update32 dt m) = Finite b'
      \<longrightarrow> (\<exists>p. fmul (Finite c') (Finite d) = Finite p
             \<and> \<bar>p - c' * d\<bar> \<le> \<bar>c' * d\<bar> / 2 ^ 24 + 1 / 2 ^ 150
             \<and> \<bar>b' - (b + p)\<bar> \<le> \<bar>b + p\<bar> / 2 ^ 24 + 1 / 2 ^ 150))"
proof -
  have pan: "\<exists>p. fmul (Finite c) (Finite d) = Finite p
             \<and> \<bar>p - c * d\<bar> \<le> \<bar>c * d\<bar> / 2 ^ 24 + 1 / 2 ^ 150
             \<and> \<bar>a' - (a + p)\<bar> \<le> \<bar>a + p\<bar> / 2 ^ 24 + 1 / 2 ^ 150"
    if "panAngle32 m = Finite a"
      and "clamp32 (panSpeed32 m) (fneg (maxSpeed32 m)) (maxSpeed32 m) = Finite c"
      and "dt = Finite d" and "panAngle32 (update32 dt m) = Finite a'"
    using that by (intro rounded_step_error) (simp add: update32_pan)
  have tilt: "\<exists>p. fmul (Finite c') (Finite d) = Finite p
             \<and> \<bar>p - c' * d\<bar> \<le> \<bar>c' * d\<bar> / 2 ^ 24 + 1 / 2 ^ 150
             \<and> \<bar>b' - (b + p)\<bar> \<le> \<bar>b + p\<bar> / 2 ^ 24 + 1 / 2 ^ 150"
    if "tiltAngle32 m = Finite b"
      and "clamp32 (tiltSpeed32 m) (fneg (maxSpeed32 m)) (maxSpeed32 m) = Finite c'"
      and "dt = Finite d" and "tiltAngle32 (update32 dt m) = Finite b'"
    using that by (intro rounded_step_error) (simp add: update32_tilt)
  show ?thesis
  proof (intro conjI impI)
    show "panAngle32 (update32 dt m)
        = fadd (panAngle32 m)
            (fmul (clamp32 (panSpeed32 m) (fneg (maxSpeed32 m)) (maxSpeed32 m)) dt)"
      by (rule update32_pan)
    show "tiltAngle32 (update32 dt m)
        = fadd (tiltAngle32 m)
            (fmul (clamp32 (tiltSpeed32 m) (fneg (maxSpeed32 m)) (maxSpeed32 m)) dt)"
      by (rule update32_tilt)
  qed (simp_all only: update32_fields, (elim conjE, rule pan tilt, assumption+)+)
qed

theorem update32_adds_rounded_product_witness:
  "panAngle32 \<lparr> panAngle32 = Finite (8947849 / 2 ^ 29), tiltAngle32 = Finite 0,
       panSpeed32 = Finite 2, tiltSpeed32 = Finite 0, maxSpeed32 = Finite (1 / 2) \<rparr>
     = Finite (8947849 / 2 ^ 29)
   \<and> clamp32 (Finite 2) (fneg (Finite (1 / 2))) (Finite (1 / 2)) = Finite (1 / 2)
   \<and> clamp32 (Finite 0) (fneg (Finite (1 / 2))) (Finite (1 / 2)) = Finite 0
   \<and> panAngle32 (update32 (Finite (8947849 / 2 ^ 29))
       \<lparr> panAngle32 = Finite (8947849 / 2 ^ 29), tiltAngle32 = Finite 0,
         panSpeed32 = Finite 2, tiltSpeed32 = Finite 0, maxSpeed32 = Finite (1 / 2) \<rparr>)
     = Finite (6710887 / 2 ^ 28)
   \<and> tiltAngle32 (update32 (Finite (8947849 / 2 ^ 29))
       \<lparr> panAngle32 = Finite (8947849 / 2 ^ 29), tiltAngle32 = Finite 0,
         panSpeed32 = Finite 2, tiltSpeed32 = Finite 0, maxSpeed32 = Finite (1 / 2) \<rparr>)
     = Finite 0
   \<and> (\<exists>p. fmul (Finite (1 / 2)) (Finite (8947849 / 2 ^ 29)) = Finite p
         \<and> \<bar>p - 1 / 2 * (8947849 / 2 ^ 29)\<bar>
             \<le> \<bar>1 / 2 * (8947849 / 2 ^ 29)\<bar> / 2 ^ 24 + 1 / 2 ^ 150
         \<and> \<bar>6710887 / 2 ^ 28 - (8947849 / 2 ^ 29 + p)\<bar>
             \<le> \<bar>8947849 / 2 ^ 29 + p\<bar> / 2 ^ 24 + 1 / 2 ^ 150)
   \<and> (\<exists>p. fmul (Finite 0) (Finite (8947849 / 2 ^ 29)) = Finite p
         \<and> \<bar>p - 0 * (8947849 / 2 ^ 29)\<bar>
             \<le> \<bar>0 * (8947849 / 2 ^ 29)\<bar> / 2 ^ 24 + 1 / 2 ^ 150
         \<and> \<bar>0 - (0 + p)\<bar> \<le> \<bar>0 + p\<bar> / 2 ^ 24 + 1 / 2 ^ 150)"
proof -
  let ?m = "\<lparr> panAngle32 = Finite (8947849 / 2 ^ 29), tiltAngle32 = Finite 0,
       panSpeed32 = Finite 2, tiltSpeed32 = Finite 0, maxSpeed32 = Finite (1 / 2) \<rparr>"
  let ?dt = "Finite (8947849 / 2 ^ 29)"
  have z: "round32 0 = Finite 0"
    by (simp add: round32_def Let_def rne_def)
  have c: "clamp32 (panSpeed32 ?m) (fneg (maxSpeed32 ?m)) (maxSpeed32 ?m) = Finite (1 / 2)"
    "clamp32 (tiltSpeed32 ?m) (fneg (maxSpeed32 ?m)) (maxSpeed32 ?m) = Finite 0"
    by (simp_all add: clamp32_def)
  have t: "tiltAngle32 (update32 ?dt ?m) = Finite 0"
    by (simp add: update32_tilt clamp32_def z)
  have a: "panAngle32 ?m = Finite (8947849 / 2 ^ 29)" "tiltAngle32 ?m = Finite 0"
    by simp_all
  note w = update32_adds_rounded_product
    [of ?dt ?m "8947849 / 2 ^ 29" "1 / 2" "8947849 / 2 ^ 29" "6710887 / 2 ^ 28" 0 0 0]
  have pan: "\<exists>p. fmul (Finite (1 / 2)) (Finite (8947849 / 2 ^ 29)) = Finite p
         \<and> \<bar>p - 1 / 2 * (8947849 / 2 ^ 29)\<bar>
             \<le> \<bar>1 / 2 * (8947849 / 2 ^ 29)\<bar> / 2 ^ 24 + 1 / 2 ^ 150
         \<and> \<bar>6710887 / 2 ^ 28 - (8947849 / 2 ^ 29 + p)\<bar>
             \<le> \<bar>8947849 / 2 ^ 29 + p\<bar> / 2 ^ 24 + 1 / 2 ^ 150"
    using w a c third_step by blast
  have tilt: "\<exists>p. fmul (Finite 0) (Finite (8947849 / 2 ^ 29)) = Finite p
         \<and> \<bar>p - 0 * (8947849 / 2 ^ 29)\<bar>
             \<le> \<bar>0 * (8947849 / 2 ^ 29)\<bar> / 2 ^ 24 + 1 / 2 ^ 150
         \<and> \<bar>0 - (0 + p)\<bar> \<le> \<bar>0 + p\<bar> / 2 ^ 24 + 1 / 2 ^ 150"
    using w a c t by blast
  have c1: "clamp32 (Finite 2) (fneg (Finite (1 / 2))) (Finite (1 / 2)) = Finite (1 / 2)"
    and c2: "clamp32 (Finite 0) (fneg (Finite (1 / 2))) (Finite (1 / 2)) = Finite 0"
    by (simp_all add: clamp32_def)
  show ?thesis
    by (intro conjI a(1) c1 c2 third_step t pan tilt)
qed

text \<open>
  The claim as stated fails at the third of three calls \<open>update(1/60)\<close> after
  \<open>setPanSpeed(2)\<close> on a new mechanism. The float nearest to \<open>1/60\<close> is
  \<open>8947849 / 2^29\<close>; the pan angle goes from \<open>8947849 / 2^29\<close> to \<open>6710887 / 2^28\<close>, a
  change of \<open>4473925 / 2^29\<close>, while \<open>clamp * dt\<close> is \<open>8947849 / 2^30\<close>.
\<close>

theorem update32_exact_change_counterexample:
  "round32 (1 / 60) = Finite (8947849 / 2 ^ 29)
   \<and> panAngle32 (update32 (round32 (1 / 60)) (update32 (round32 (1 / 60))
        (setPanSpeed32 (Finite 2) constructed32))) = Finite (8947849 / 2 ^ 29)
   \<and> panAngle32 (update32 (round32 (1 / 60)) (update32 (round32 (1 / 60))
        (update32 (round32 (1 / 60)) (setPanSpeed32 (Finite 2) constructed32))))
      = Finite (6710887 / 2 ^ 28)
   \<and> clamp32 (Finite 2) (fneg (Finite (1 / 2))) (Finite (1 / 2)) = Finite (1 / 2)
   \<and> (6710887 / 2 ^ 28 - 8947849 / 2 ^ 29 :: real) \<noteq> 1 / 2 * (8947849 / 2 ^ 29)"
  unfolding dt_60 two_steps third_step by (simp add: clamp32_def)

subsection \<open>Repeated calls\<close>

lemma updates32_fields:
  "panSpeed32 (updates32 n dt m) = panSpeed32 m"
  "tiltSpeed32 (updates32 n dt m) = tiltSpeed32 m"
  "maxSpeed32 (updates32 n dt m) = maxSpeed32 m"
  by (induction n arbitrary: m; simp add: update32_fields)+

lemma updates32_pan:
  "panAngle32 (updates32 n dt m) =
     ((\<lambda>a. fadd a (fmul (clamp32 (panSpeed32 m) (fneg (maxSpeed32 m)) (maxSpeed32 m)) dt)) ^^ n)
       (panAngle32 m)"
proof (induction n arbitrary: m)
  case 0
  then show ?case by simp
next
  case (Suc n)
  show ?case
    by (simp only: updates32.simps Suc.IH update32_fields update32_pan funpow_Suc_right o_apply)
qed

lemma clamp32_saturated:
  "0 \<le> M \<Longrightarrow> M < \<bar>s\<bar> \<Longrightarrow>
   clamp32 (Finite s) (fneg (Finite M)) (Finite M) = Finite (sgn s * M)"
  by (auto simp: clamp32_def sgn_if abs_if split: if_splits)

lemma clamp32_at_limit:
  "0 \<le> M \<Longrightarrow> clamp32 (Finite (sgn s * M)) (fneg (Finite M)) (Finite M) = Finite (sgn s * M)"
  by (auto simp: clamp32_def sgn_if)

text \<open>
  Claim C2, as amended. Let the speed limit be a finite \<open>M \<ge> 0\<close> (it is \<open>0.5\<close> in every
  constructed mechanism) and \<open>\<bar>s\<bar> > M\<close>. Then \<open>setPanSpeed(s)\<close> stores \<open>s\<close> as it is, the
  stored value is still \<open>s\<close> after \<open>N\<close> calls of \<open>update(dt)\<close>, and those calls add the
  binary32 product \<open>(sgn s * M) * dt\<close> to the pan angle \<open>N\<close> times, each addition rounded.
  The total is \<open>maxSpeed * dt * N\<close> up to the rounding of these additions, and it is the
  same as if the limit itself, with the sign of \<open>s\<close>, had been stored: the clamping
  happens in every integration step, never when the speed is set.
\<close>

theorem setPanSpeed32_then_updates32_saturate:
  assumes "maxSpeed32 m = Finite M" and "0 \<le> M" and "M < \<bar>s\<bar>"
  shows "panSpeed32 (setPanSpeed32 (Finite s) m) = Finite s
   \<and> panSpeed32 (updates32 N dt (setPanSpeed32 (Finite s) m)) = Finite s
   \<and> panAngle32 (updates32 N dt (setPanSpeed32 (Finite s) m))
       = ((\<lambda>a. fadd a (fmul (Finite (sgn s * M)) dt)) ^^ N) (panAngle32 m)
   \<and> panAngle32 (updates32 N dt (setPanSpeed32 (Finite s) m))
       = panAngle32 (updates32 N dt (setPanSpeed32 (Finite (sgn s * M)) m))"
proof -
  have f: "panSpeed32 (setPanSpeed32 v m) = v" "maxSpeed32 (setPanSpeed32 v m) = Finite M"
    "panAngle32 (setPanSpeed32 v m) = panAngle32 m" for v
    using assms(1) by (simp_all add: setPanSpeed32_def)
  have c: "clamp32 (Finite s) (fneg (Finite M)) (Finite M) = Finite (sgn s * M)"
    using assms(2,3) by (rule clamp32_saturated)
  have c': "clamp32 (Finite (sgn s * M)) (fneg (Finite M)) (Finite M) = Finite (sgn s * M)"
    using assms(2) by (rule clamp32_at_limit)
  show ?thesis
    by (simp only: updates32_pan updates32_fields f c c')
qed

theorem setPanSpeed32_then_updates32_saturate_witness:
  "maxSpeed32 constructed32 = Finite (1 / 2) \<and> (0::real) \<le> 1 / 2 \<and> (1 / 2 :: real) < \<bar>2\<bar>
   \<and> panSpeed32 (updates32 3 (Finite (8947849 / 2 ^ 29))
        (setPanSpeed32 (Finite 2) constructed32)) = Finite 2
   \<and> panAngle32 (updates32 3 (Finite (8947849 / 2 ^ 29))
        (setPanSpeed32 (Finite 2) constructed32))
       = ((\<lambda>a. fadd a (fmul (Finite (1 / 2)) (Finite (8947849 / 2 ^ 29)))) ^^ 3) (Finite 0)
   \<and> panAngle32 (updates32 3 (Finite (8947849 / 2 ^ 29))
        (setPanSpeed32 (Finite 2) constructed32))
       = panAngle32 (updates32 3 (Finite (8947849 / 2 ^ 29))
        (setPanSpeed32 (Finite (1 / 2)) constructed32))"
proof -
  have h: "maxSpeed32 constructed32 = Finite (1 / 2)" "panAngle32 constructed32 = Finite 0"
    by (simp_all add: constructed32_def)
  have n: "(0::real) \<le> 1 / 2" "(1 / 2 :: real) < \<bar>2\<bar>"
    by simp_all
  have sg: "sgn (2::real) * (1 / 2) = 1 / 2"
    by simp
  note w = setPanSpeed32_then_updates32_saturate
    [OF h(1) n, of 3 "Finite (8947849 / 2 ^ 29)", unfolded sg h(2)]
  show ?thesis
    using w h(1) n by blast
qed

lemma updates32_three: "updates32 3 dt m = update32 dt (update32 dt (update32 dt m))"
  by (simp add: eval_nat_numeral)

text \<open>
  The claim as stated fails for \<open>s = 2\<close>, the float nearest to \<open>1/60\<close> as \<open>dt\<close> and \<open>N = 3\<close>
  on a new mechanism: the pan angle changes by \<open>6710887 / 2^28\<close>, which is not
  \<open>maxSpeed * dt * N = 26843547 / 2^30\<close>.
\<close>

theorem updates32_total_counterexample:
  "round32 (1 / 60) = Finite (8947849 / 2 ^ 29)
   \<and> maxSpeed32 constructed32 = Finite (1 / 2)
   \<and> panAngle32 constructed32 = Finite 0
   \<and> panAngle32 (updates32 3 (round32 (1 / 60)) (setPanSpeed32 (Finite 2) constructed32))
       = Finite (6710887 / 2 ^ 28)
   \<and> (6710887 / 2 ^ 28 - 0 :: real) \<noteq> 1 / 2 * (8947849 / 2 ^ 29) * 3"
  unfolding dt_60 updates32_three two_steps third_step
  by (simp add: constructed32_def)

end
